theory Spec2Isabelle
  imports Complex_Main
begin

section \<open>The airflow calculator of \<open>airflowcalculator.py\<close>\<close>

text \<open>
  A shallow embedding of the class \<open>AirFlowCalculator\<close>. Python floats are read as the
  real numbers they approximate: \<open>real\<close> has neither rounding error, NaN nor overflow.
  The optimiser \<open>scipy.optimize.curve_fit\<close> is a library outside the repository; it is a
  parameter of \<open>calculate_airflow\<close>, and what it raises is a value of a sum type.
\<close>

subsection \<open>The two enumerations\<close>

datatype AirFlowInhibitorWeights = FURNITURE | NUM_FANS | RESIDENTIAL_CFM

primrec weight_value :: "AirFlowInhibitorWeights \<Rightarrow> real" where
  "weight_value FURNITURE = 3"
| "weight_value NUM_FANS = 2"
| "weight_value RESIDENTIAL_CFM = 15"

datatype Constants = NUM_FURNITURE | INDOOR_VENT_SPEED | PEOPLE

primrec constant_value :: "Constants \<Rightarrow> real" where
  "constant_value NUM_FURNITURE = 6"
| "constant_value INDOOR_VENT_SPEED = 0.5"
| "constant_value PEOPLE = 4"

subsection \<open>The object and its log\<close>

record AirFlowCalculator =
  room_volume :: real
  CO_history :: "(real \<times> real) list"

definition init :: "real \<Rightarrow> AirFlowCalculator" where
  "init room_volume_m3 = \<lparr>room_volume = room_volume_m3, CO_history = []\<rparr>"

definition add_measurement :: "AirFlowCalculator \<Rightarrow> real \<Rightarrow> real \<Rightarrow> AirFlowCalculator" where
  "add_measurement self timestamp CO_ppm =
     self\<lparr>CO_history := CO_history self @ [(timestamp, CO_ppm)]\<rparr>"

text \<open>Python's slice \<open>xs[-n:]\<close> for \<open>n > 0\<close>: the last \<open>n\<close> items, all of them when
  the list is shorter (the subtraction on \<open>nat\<close> stops at 0, as the slice clips).\<close>

definition last_n :: "nat \<Rightarrow> 'a list \<Rightarrow> 'a list" where
  "last_n n xs = drop (length xs - n) xs"

subsection \<open>The fitter, as the code calls it\<close>

text \<open>Whatever \<open>except Exception as e\<close> catches, with its message.\<close>

datatype exn = Exception string

text \<open>
  \<open>curve_fit f xdata ydata p0\<close>: the model function, the data and the initial guess; the
  answer is the fitted parameter pair or the exception raised. The covariance matrix that
  scipy returns beside the parameters is bound by the code and never read; it is left out.
\<close>

type_synonym curve_fit =
  "(real \<Rightarrow> real \<Rightarrow> real \<Rightarrow> real) \<Rightarrow> real list \<Rightarrow> real list \<Rightarrow> real \<times> real \<Rightarrow> exn + real \<times> real"

text \<open>The inner function \<open>decay\<close>; it closes over the array \<open>times\<close>, written
  \<open>times'\<close> here (\<open>times\<close> is HOL's multiplication).\<close>

definition decay :: "real list \<Rightarrow> real \<Rightarrow> real \<Rightarrow> real \<Rightarrow> real" where
  "decay times' t C0 lambd = C0 * exp (- lambd * (t - hd times'))"

subsection \<open>Confidence\<close>

definition sigmoid :: "real \<Rightarrow> real" where
  "sigmoid x = 1 / (1 + (exp 1 powr (- x)))"

text \<open>
  Python's \<open>round(x, ndigits)\<close> on a float rounds the exact value to the nearest multiple of
  \<open>10 ^ (- ndigits)\<close>, a tie going to the even one.
\<close>

definition round_half_even :: "real \<Rightarrow> int" where
  "round_half_even y =
     (let f = \<lfloor>y\<rfloor>; d = y - of_int f
      in if d < 1 / 2 then f else if 1 / 2 < d then f + 1 else if even f then f else f + 1)"

definition py_round :: "real \<Rightarrow> nat \<Rightarrow> real" where
  "py_round x ndigits = of_int (round_half_even (x * 10 ^ ndigits)) / 10 ^ ndigits"

text \<open>Lines 67 to 76 of \<open>quant_confidence\<close>: the score before it is normalised.\<close>

definition cp_value_raw :: "string \<Rightarrow> real \<Rightarrow> real \<Rightarrow> real \<Rightarrow> real" where
  "cp_value_raw confidence num_furniture indoor_vent_speed current_capacity =
     (let count = 50;
          count = (if confidence = ''low'' then count - 25 else count + 25);
          add_factors = num_furniture * weight_value FURNITURE
                      + indoor_vent_speed * weight_value NUM_FANS
                      + current_capacity * weight_value RESIDENTIAL_CFM
      in count + add_factors)"

definition quant_confidence :: "string \<Rightarrow> real \<Rightarrow> real \<Rightarrow> real \<Rightarrow> real" where
  "quant_confidence confidence num_furniture indoor_vent_speed current_capacity =
     (let cp_value = cp_value_raw confidence num_furniture indoor_vent_speed current_capacity;
          cp_value = sigmoid cp_value
      in py_round cp_value 2)"

subsection \<open>What is printed\<close>

text \<open>
  Every \<open>print\<close> of \<open>calculate_airflow\<close> is one constructor, carrying the values the
  line formats (not the formatted text); \<open>Traceback\<close> is \<open>traceback.print_exc()\<close>.
\<close>

datatype message =
  DebugHistory nat
| DebugNotEnough
| DebugUsingLast nat
| DebugTimes "real list"
| DebugCOValues "real list"
| DebugNotDecaying
| DebugFitted real real
| DebugAirflow real real real
| DebugReturning "string \<rightharpoonup> real"
| ErrorCurveFit exn
| Traceback exn

subsection \<open>\<open>calculate_airflow\<close>\<close>

text \<open>
  The value returned is \<open>None\<close> or the result dictionary; the first component is what
  was printed on the way, in order.
\<close>

definition calculate_airflow ::
  "curve_fit \<Rightarrow> AirFlowCalculator \<Rightarrow> message list \<times> (string \<rightharpoonup> real) option" where
  "calculate_airflow curve_fit self =
     (let out = [DebugHistory (length (CO_history self))]
      in if length (CO_history self) < 2 then (out @ [DebugNotEnough], None)
         else
           let recent_data = last_n 10 (CO_history self);
               out = out @ [DebugUsingLast (length recent_data)];
               times' = map fst recent_data;
               CO_vals = map snd recent_data;
               out = out @ [DebugTimes times', DebugCOValues CO_vals]
           in if hd CO_vals \<le> last CO_vals then (out @ [DebugNotDecaying], None)
              else
                (case curve_fit (decay times') times' CO_vals (hd CO_vals, 0.001) of
                   Inl e \<Rightarrow> (out @ [ErrorCurveFit e, Traceback e], None)
                 | Inr (C0_fit, lambda_per_sec) \<Rightarrow>
                     let out = out @ [DebugFitted C0_fit lambda_per_sec];
                         ACH = lambda_per_sec * 3600;
                         airflow_m3h = ACH * room_volume self;
                         airflow_CFM = airflow_m3h * 0.588;
                         out = out @ [DebugAirflow ACH airflow_m3h airflow_CFM];
                         bin_cval = (if 5 \<le> length recent_data then ''high'' else ''low'');
                         result = [''ACH'' \<mapsto> ACH,
                                   ''airflow_m3h'' \<mapsto> airflow_m3h,
                                   ''airflow_CFM'' \<mapsto> airflow_CFM,
                                   ''confidence'' \<mapsto>
                                      quant_confidence bin_cval
                                        (constant_value NUM_FURNITURE)
                                        (constant_value INDOOR_VENT_SPEED)
                                        (constant_value PEOPLE)]
                     in (out @ [DebugReturning result], Some result)))"

subsection \<open>Inputs for the closed examples\<close>

text \<open>A fitter that gives one fixed answer, standing in for the library call.\<close>

definition canned_fit :: "exn + real \<times> real \<Rightarrow> curve_fit" where
  "canned_fit answer = (\<lambda>f xdata ydata p0. answer)"

text \<open>The room and the six samples of the script's own \<open>__main__\<close> block.\<close>

definition demo_room :: AirFlowCalculator where
  "demo_room =
     add_measurement (add_measurement (add_measurement (add_measurement (add_measurement
       (add_measurement (init 48) 0 400) 30 380) 60 362) 90 345) 120 328) 150 313"

text \<open>Two measurements whose timestamps go backwards; \<open>add_measurement\<close> takes them.\<close>

definition out_of_order_room :: AirFlowCalculator where
  "out_of_order_room = add_measurement (add_measurement (init 48) 10 400) 0 200"

definition single_room :: AirFlowCalculator where
  "single_room = add_measurement (init 48) 0 400"

definition flat_room :: AirFlowCalculator where
  "flat_room = add_measurement (add_measurement (init 48) 0 400) 30 400"

definition failing_fit :: curve_fit where
  "failing_fit = canned_fit (Inl (Exception ''Optimal parameters not found''))"

text \<open>A log longer than the window: twelve measurements.\<close>

definition twelve_room :: AirFlowCalculator where
  "twelve_room = foldl (\<lambda>s m. add_measurement s (fst m) (snd m)) (init 48)
     [(0, 500), (30, 480), (60, 460), (90, 440), (120, 420), (150, 400),
      (180, 380), (210, 362), (240, 345), (270, 328), (300, 313), (330, 300)]"

subsection \<open>The confidence algorithm in the specification's words\<close>

text \<open>
  Section 4.5 of the specification, step by step, for comparison with \<open>quant_confidence\<close>:
  the bucket from the number of samples, the base score 50 adjusted by the bucket, the
  additive term with the weights 3, 2 and 15, the logistic sigmoid, two decimal places.
\<close>

definition spec_bucket :: "nat \<Rightarrow> string" where
  "spec_bucket n_samples = (if 5 \<le> n_samples then ''high'' else ''low'')"

definition spec_confidence :: "string \<Rightarrow> real \<Rightarrow> real \<Rightarrow> real \<Rightarrow> real" where
  "spec_confidence bucket furniture_count vent_speed occupant_count =
     (let base = 50 + (if bucket = ''low'' then - 25 else 0)
                    + (if bucket = ''high'' then 25 else 0);
          additive = furniture_count * 3 + vent_speed * 2 + occupant_count * 15;
          raw_score = base + additive
      in py_round (1 / (1 + exp (- raw_score))) 2)"

subsection \<open>The fitter's contract in the specification's words\<close>



subsection \<open>More inputs for the closed examples\<close>


text \<open>A fitter whose answer shows which data it was given: the sums of the two arrays.\<close>

definition probe_fit :: curve_fit where
  "probe_fit = (\<lambda>f xdata ydata p0. Inr (sum_list xdata, sum_list ydata))"


section \<open>Facts about the parts\<close>

subsection \<open>The window\<close>

lemma last_n_length: "length (last_n n xs) = min n (length xs)"
  by (simp add: last_n_def)

lemma last_n_suffix: "take (length xs - n) xs @ last_n n xs = xs"
  by (simp add: last_n_def)

lemma last_n_short: "length xs \<le> n \<Longrightarrow> last_n n xs = xs"
  by (simp add: last_n_def)

lemma window_nonempty: "2 \<le> length xs \<Longrightarrow> last_n 10 xs \<noteq> []"
  by (auto simp add: last_n_def)

lemma last_n_idem: "last_n n (last_n n xs) = last_n n xs"
  by (simp add: last_n_def)

lemma add_measurement_history:
  "CO_history (add_measurement self t c) = CO_history self @ [(t, c)]"
  by (simp add: add_measurement_def)

lemma add_measurements_history:
  "CO_history (foldl (\<lambda>s m. add_measurement s (fst m) (snd m)) self ms) = CO_history self @ ms"
  by (induction ms arbitrary: self) (simp_all add: add_measurement_history)

subsection \<open>The decay model\<close>



subsection \<open>The sigmoid and the rounding\<close>

lemma sigmoid_exp: "sigmoid x = 1 / (1 + exp (- x))"
  by (simp add: sigmoid_def powr_def)

lemma sigmoid_pos: "0 < sigmoid x"
  by (simp add: sigmoid_exp add_pos_pos)

lemma sigmoid_less_one: "sigmoid x < 1"
proof -
  have "1 < 1 + exp (- x)" by simp
  then show ?thesis unfolding sigmoid_exp by (simp del: exp_gt_zero)
qed

lemma round_half_even_bounds:
  "\<lfloor>y\<rfloor> \<le> round_half_even y \<and> round_half_even y \<le> \<lfloor>y\<rfloor> + 1"
  by (simp add: round_half_even_def Let_def)

lemma py_round_unit:
  assumes "0 \<le> x" and "x < 1"
  shows "0 \<le> py_round x 2 \<and> py_round x 2 \<le> 1"
proof -
  let ?y = "x * 10 ^ 2"
  have y: "0 \<le> ?y" "?y < 100" using assms by simp_all
  have f0: "0 \<le> \<lfloor>?y\<rfloor>" using y(1) by simp
  have f1: "\<lfloor>?y\<rfloor> < 100" using y(2) by (simp add: floor_less_iff)
  have "0 \<le> round_half_even ?y" and "round_half_even ?y \<le> 100"
    using round_half_even_bounds [of ?y] f0 f1 by linarith+
  then have "0 \<le> (of_int (round_half_even ?y) :: real)"
    and "(of_int (round_half_even ?y) :: real) \<le> 100"
    by simp_all
  then show ?thesis by (simp add: py_round_def)
qed

lemma py_round_sigmoid_unit: "0 \<le> py_round (sigmoid x) 2 \<and> py_round (sigmoid x) 2 \<le> 1"
  using py_round_unit [of "sigmoid x"] sigmoid_pos [of x] sigmoid_less_one [of x] by simp

lemma exp_large:
  assumes "28 \<le> x"
  shows "199 < exp (x::real)"
proof -
  have "1 + x / 2 \<le> exp (x / 2)" by (rule exp_ge_add_one_self)
  then have "15 \<le> exp (x / 2)" using assms by linarith
  then have "15 * 15 \<le> exp (x / 2) * exp (x / 2)" by (intro mult_mono) simp_all
  also have "exp (x / 2) * exp (x / 2) = exp x" by (simp add: exp_add [symmetric])
  finally show ?thesis by simp
qed

lemma sigmoid_saturated:
  assumes "28 \<le> x"
  shows "199 / 200 < sigmoid x"
proof -
  have e: "199 < exp x" using assms by (rule exp_large)
  have "exp (- x) = 1 / exp x" by (simp add: exp_minus inverse_eq_divide)
  moreover have "1 / exp x < 1 / 199" using e by (simp add: field_simps)
  ultimately have u: "exp (- x) < 1 / 199" by simp
  have p: "0 < 1 + exp (- x)" by (simp add: add_pos_pos)
  have "199 * (1 + exp (- x)) < 200" using u by simp
  then have "199 / 200 < 1 / (1 + exp (- x))" using p by (simp add: field_simps)
  then show ?thesis by (simp add: sigmoid_exp)
qed

lemma py_round_near_one:
  assumes "199 / 200 < x" and "x < 1"
  shows "py_round x 2 = 1"
proof -
  let ?y = "x * 10 ^ 2"
  have y: "99 + 1 / 2 < ?y" "?y < 100" using assms by simp_all
  have f: "\<lfloor>?y\<rfloor> = 99" using y by (simp add: floor_eq_iff)
  have "round_half_even ?y = 100" using y f by (simp add: round_half_even_def Let_def)
  then show ?thesis by (simp add: py_round_def)
qed

lemma py_round_sigmoid_saturated: "28 \<le> x \<Longrightarrow> py_round (sigmoid x) 2 = 1"
  by (rule py_round_near_one [OF sigmoid_saturated sigmoid_less_one])

lemma cp_value_raw_low: "cp_value_raw ''low'' 6 0.5 4 = 104"
  by (simp add: cp_value_raw_def)

lemma cp_value_raw_high: "cp_value_raw ''high'' 6 0.5 4 = 154"
  by (simp add: cp_value_raw_def)

lemma quant_confidence_constants:
  "quant_confidence (if b then ''high'' else ''low'') 6 0.5 4 = 1"
  by (simp add: quant_confidence_def cp_value_raw_def py_round_sigmoid_saturated)

subsection \<open>The four ways through \<open>calculate_airflow\<close>\<close>

lemma calculate_airflow_short:
  "length (CO_history self) < 2 \<Longrightarrow>
   calculate_airflow curve_fit self =
     ([DebugHistory (length (CO_history self)), DebugNotEnough], None)"
  by (simp add: calculate_airflow_def)

lemma calculate_airflow_flat:
  assumes "2 \<le> length (CO_history self)"
    and "w = last_n 10 (CO_history self)"
    and "hd (map snd w) \<le> last (map snd w)"
  shows "calculate_airflow curve_fit self =
     ([DebugHistory (length (CO_history self)), DebugUsingLast (length w),
       DebugTimes (map fst w), DebugCOValues (map snd w), DebugNotDecaying], None)"
  using assms by (simp add: calculate_airflow_def Let_def)

lemma calculate_airflow_failed:
  assumes "2 \<le> length (CO_history self)"
    and "w = last_n 10 (CO_history self)"
    and "last (map snd w) < hd (map snd w)"
    and "curve_fit (decay (map fst w)) (map fst w) (map snd w) (hd (map snd w), 0.001) = Inl e"
  shows "calculate_airflow curve_fit self =
     ([DebugHistory (length (CO_history self)), DebugUsingLast (length w),
       DebugTimes (map fst w), DebugCOValues (map snd w), ErrorCurveFit e, Traceback e], None)"
  using assms by (simp add: calculate_airflow_def Let_def)

lemma calculate_airflow_fitted:
  assumes "2 \<le> length (CO_history self)"
    and "w = last_n 10 (CO_history self)"
    and "last (map snd w) < hd (map snd w)"
    and "curve_fit (decay (map fst w)) (map fst w) (map snd w) (hd (map snd w), 0.001)
           = Inr (C0_fit, lambda_per_sec)"
  shows "snd (calculate_airflow curve_fit self) =
     Some [''ACH'' \<mapsto> lambda_per_sec * 3600,
           ''airflow_m3h'' \<mapsto> lambda_per_sec * 3600 * room_volume self,
           ''airflow_CFM'' \<mapsto> lambda_per_sec * 3600 * room_volume self * 0.588,
           ''confidence'' \<mapsto>
              quant_confidence (if 5 \<le> length w then ''high'' else ''low'') 6 0.5 4]"
  using assms by (simp add: calculate_airflow_def Let_def)

lemma calculate_airflow_Some:
  assumes "snd (calculate_airflow curve_fit self) = Some result"
    and "w = last_n 10 (CO_history self)"
  shows "2 \<le> length (CO_history self) \<and> last (map snd w) < hd (map snd w) \<and>
    (\<exists>C0_fit lambda_per_sec.
       curve_fit (decay (map fst w)) (map fst w) (map snd w) (hd (map snd w), 0.001)
         = Inr (C0_fit, lambda_per_sec) \<and>
       result = [''ACH'' \<mapsto> lambda_per_sec * 3600,
           ''airflow_m3h'' \<mapsto> lambda_per_sec * 3600 * room_volume self,
           ''airflow_CFM'' \<mapsto> lambda_per_sec * 3600 * room_volume self * 0.588,
           ''confidence'' \<mapsto>
              quant_confidence (if 5 \<le> length w then ''high'' else ''low'') 6 0.5 4])"
  using assms
  by (auto simp add: calculate_airflow_def Let_def split: if_splits sum.splits prod.splits)

lemma calculate_airflow_None:
  assumes "snd (calculate_airflow curve_fit self) = None"
    and "w = last_n 10 (CO_history self)"
  shows "(length (CO_history self) < 2 \<and>
            calculate_airflow curve_fit self =
              ([DebugHistory (length (CO_history self)), DebugNotEnough], None))
       \<or> (2 \<le> length (CO_history self) \<and> hd (map snd w) \<le> last (map snd w) \<and>
            calculate_airflow curve_fit self =
              ([DebugHistory (length (CO_history self)), DebugUsingLast (length w),
                DebugTimes (map fst w), DebugCOValues (map snd w), DebugNotDecaying], None))
       \<or> (2 \<le> length (CO_history self) \<and> last (map snd w) < hd (map snd w) \<and>
            (\<exists>e. curve_fit (decay (map fst w)) (map fst w) (map snd w) (hd (map snd w), 0.001)
                   = Inl e \<and>
                 calculate_airflow curve_fit self =
                   ([DebugHistory (length (CO_history self)), DebugUsingLast (length w),
                     DebugTimes (map fst w), DebugCOValues (map snd w),
                     ErrorCurveFit e, Traceback e], None)))"
  using assms
  by (auto simp add: calculate_airflow_def Let_def split: if_splits sum.splits prod.splits)

lemma window_ends:
  "2 \<le> length xs \<Longrightarrow> w = last_n 10 xs \<Longrightarrow>
   hd (map snd w) = snd (hd w) \<and> last (map snd w) = snd (last w)"
  using window_nonempty [of xs] by (simp add: hd_map last_map)

lemma calculate_airflow_gated:
  assumes "2 \<le> length (CO_history self)"
    and "w = last_n 10 (CO_history self)"
    and "snd (last w) < snd (hd w)"
  shows "snd (calculate_airflow curve_fit self) =
     (case curve_fit (decay (map fst w)) (map fst w) (map snd w) (snd (hd w), 0.001) of
        Inl e \<Rightarrow> None
      | Inr (C0_fit, lambda_per_sec) \<Rightarrow>
          Some [''ACH'' \<mapsto> lambda_per_sec * 3600,
                ''airflow_m3h'' \<mapsto> lambda_per_sec * 3600 * room_volume self,
                ''airflow_CFM'' \<mapsto> lambda_per_sec * 3600 * room_volume self * 0.588,
                ''confidence'' \<mapsto>
                   quant_confidence (if 5 \<le> length w then ''high'' else ''low'') 6 0.5 4])"
proof -
  have e: "hd (map snd w) = snd (hd w)" "last (map snd w) = snd (last w)"
    using window_ends [OF assms(1,2)] by simp_all
  show ?thesis
  proof (cases "curve_fit (decay (map fst w)) (map fst w) (map snd w) (snd (hd w), 0.001)")
    case (Inl err)
    then show ?thesis
      using calculate_airflow_failed [of self w curve_fit err] assms e by simp
  next
    case (Inr p)
    obtain C0_fit lambda_per_sec where p: "p = (C0_fit, lambda_per_sec)" by (cases p)
    show ?thesis
      using calculate_airflow_fitted [of self w curve_fit C0_fit lambda_per_sec] assms e Inr p
      by simp
  qed
qed

subsection \<open>The script's own run\<close>

lemma demo_history:
  "CO_history demo_room = [(0, 400), (30, 380), (60, 362), (90, 345), (120, 328), (150, 313)]"
  "room_volume demo_room = 48"
  by (simp_all add: demo_room_def add_measurement_def init_def)

lemma demo_calc:
  "snd (calculate_airflow (canned_fit (Inr (400, 1 / 600))) demo_room) =
     Some [''ACH'' \<mapsto> 6, ''airflow_m3h'' \<mapsto> 288, ''airflow_CFM'' \<mapsto> 288 * 0.588,
           ''confidence'' \<mapsto> 1]"
  by (simp add: calculate_airflow_def Let_def demo_history last_n_def canned_fit_def
      quant_confidence_constants [of True, simplified])

lemma example_histories:
  "CO_history out_of_order_room = [(10, 400), (0, 200)]"
  "room_volume out_of_order_room = 48"
  "CO_history single_room = [(0, 400)]"
  "CO_history flat_room = [(0, 400), (30, 400)]"
  by (simp_all add: out_of_order_room_def single_room_def flat_room_def add_measurement_def
      init_def)

lemma twelve_history:
  "CO_history twelve_room =
     [(0, 500), (30, 480), (60, 460), (90, 440), (120, 420), (150, 400),
      (180, 380), (210, 362), (240, 345), (270, 328), (300, 313), (330, 300)]"
  unfolding twelve_room_def add_measurements_history by (simp add: init_def)

lemma twelve_window:
  "last_n 10 (CO_history twelve_room) =
     [(60, 460), (90, 440), (120, 420), (150, 400),
      (180, 380), (210, 362), (240, 345), (270, 328), (300, 313), (330, 300)]"
  by (simp add: twelve_history last_n_def)

lemma demo_window: "last_n 10 (CO_history demo_room) = CO_history demo_room"
  by (simp add: demo_history last_n_def)

subsection \<open>Least squares on exact data\<close>













subsection \<open>The code's confidence against the specification's\<close>

lemma quant_confidence_spec:
  "bucket = ''high'' \<or> bucket = ''low'' \<Longrightarrow>
   quant_confidence bucket f v p = spec_confidence bucket f v p"
proof -
  assume b: "bucket = ''high'' \<or> bucket = ''low''"
  have "cp_value_raw bucket f v p =
      50 + (if bucket = ''low'' then - 25 else 0) + (if bucket = ''high'' then 25 else 0)
         + (f * 3 + v * 2 + p * 15)"
    using b by (auto simp add: cp_value_raw_def)
  then show ?thesis
    by (simp only: quant_confidence_def spec_confidence_def sigmoid_exp Let_def)
qed

section \<open>The claims\<close>

text \<open>
  Claim C1, as the code has it. \<open>calculate_airflow\<close> never looks at the sign of the fitted
  \<open>lambda_per_sec\<close>: once the window has passed the gate and the fitter has answered with a
  pair, the dictionary is returned with \<open>ACH = lambda_per_sec * 3600\<close>, whatever the sign.
  \<open>ACH\<close> is strictly positive exactly when \<open>lambda_per_sec\<close> is, and with a positive room
  volume so are the two airflows.
\<close>

theorem airflow_sign_follows_lambda:
  assumes "2 \<le> length (CO_history self)"
    and "w = last_n 10 (CO_history self)"
    and "snd (last w) < snd (hd w)"
    and "curve_fit (decay (map fst w)) (map fst w) (map snd w) (snd (hd w), 0.001)
           = Inr (C0_fit, lambda_per_sec)"
  shows "\<exists>result.
           snd (calculate_airflow curve_fit self) = Some result \<and>
           result ''ACH'' = Some (lambda_per_sec * 3600) \<and>
           result ''airflow_m3h'' = Some (lambda_per_sec * 3600 * room_volume self) \<and>
           result ''airflow_CFM'' = Some (lambda_per_sec * 3600 * room_volume self * 0.588) \<and>
           (0 < lambda_per_sec * 3600 \<longleftrightarrow> 0 < lambda_per_sec) \<and>
           (0 < room_volume self \<longrightarrow>
              (0 < lambda_per_sec * 3600 * room_volume self \<longleftrightarrow> 0 < lambda_per_sec) \<and>
              (0 < lambda_per_sec * 3600 * room_volume self * 0.588
                 \<longleftrightarrow> 0 < lambda_per_sec))"
proof -
  have ne: "w \<noteq> []" using assms(1,2) by (simp add: window_nonempty)
  have r: "snd (calculate_airflow curve_fit self) =
     Some [''ACH'' \<mapsto> lambda_per_sec * 3600,
           ''airflow_m3h'' \<mapsto> lambda_per_sec * 3600 * room_volume self,
           ''airflow_CFM'' \<mapsto> lambda_per_sec * 3600 * room_volume self * 0.588,
           ''confidence'' \<mapsto>
              quant_confidence (if 5 \<le> length w then ''high'' else ''low'') 6 0.5 4]"
    using assms ne by (intro calculate_airflow_fitted) (simp_all add: hd_map last_map)
  have s1: "0 < lambda_per_sec * 3600 \<longleftrightarrow> 0 < lambda_per_sec"
    by (simp add: zero_less_mult_iff)
  have s2: "0 < lambda_per_sec * 3600 * room_volume self \<longleftrightarrow> 0 < lambda_per_sec"
    if "0 < room_volume self" using that by (simp add: zero_less_mult_iff)
  have s3: "0 < lambda_per_sec * 3600 * room_volume self * 0.588 \<longleftrightarrow> 0 < lambda_per_sec"
    if "0 < room_volume self" using that by (simp add: zero_less_mult_iff)
  show ?thesis
    unfolding r using s1 s2 s3 by (intro exI conjI impI) (rule refl, simp_all)
qed

theorem airflow_sign_follows_lambda_witness:
  "snd (calculate_airflow (canned_fit (Inr (400, 1 / 600))) demo_room) \<noteq> None \<and>
   the (snd (calculate_airflow (canned_fit (Inr (400, 1 / 600))) demo_room)) ''ACH'' = Some 6"
proof -
  have "\<exists>result.
      snd (calculate_airflow (canned_fit (Inr (400, 1 / 600))) demo_room) = Some result \<and>
      result ''ACH'' = Some (1 / 600 * 3600)"
    using airflow_sign_follows_lambda [of demo_room "CO_history demo_room"
      "canned_fit (Inr (400, 1 / 600))" 400 "1 / 600"]
    by (auto simp add: demo_history last_n_def canned_fit_def)
  then show ?thesis by auto
qed

text \<open>
  Claim C1 as written fails. The log holds \<open>(10, 400)\<close> then \<open>(0, 200)\<close>: the first
  concentration is above the last, so the gate lets the window through. The pair
  \<open>(400, - ln 2 / 10)\<close> reproduces both samples exactly under \<open>decay\<close>, so it is the
  least-squares answer for this window, and its decay constant is negative. With that
  answer from the fitter the call returns a dictionary, whose \<open>ACH\<close> is \<open>- 360 * ln 2\<close>.
\<close>

theorem negative_lambda_is_reported:
  "decay [10, 0] 10 400 (- ln 2 / 10) = 400 \<and>
   decay [10, 0] 0 400 (- ln 2 / 10) = 200 \<and>
   - ln 2 / 10 \<le> (0::real) \<and>
   snd (calculate_airflow (canned_fit (Inr (400, - ln 2 / 10))) out_of_order_room) \<noteq> None \<and>
   the (snd (calculate_airflow (canned_fit (Inr (400, - ln 2 / 10))) out_of_order_room)) ''ACH''
     = Some (- 360 * ln 2) \<and>
   - 360 * ln 2 < (0::real)"
proof -
  have "exp (- ln (2::real)) = 1 / 2" by (simp add: exp_minus inverse_eq_divide)
  then have d: "decay [10, 0] 0 400 (- ln 2 / 10) = 200" by (simp add: decay_def)
  show ?thesis using d
    by (simp add: calculate_airflow_def Let_def example_histories last_n_def canned_fit_def
        decay_def)
qed

text \<open>
  Claim C2, as the code has it. A log with fewer than two measurements makes
  \<open>calculate_airflow\<close> print the not-enough-data line and return \<open>None\<close>. Every failing
  call returns that same bare \<open>None\<close>; what tells the three causes apart is only the last
  thing printed: the not-enough-data line, the not-decaying line, or the curve-fitting error
  with the traceback of the exception the fitter raised.
\<close>

theorem failure_is_bare_None:
  assumes "w = last_n 10 (CO_history self)"
  shows "(length (CO_history self) < 2 \<longrightarrow>
            calculate_airflow curve_fit self =
              ([DebugHistory (length (CO_history self)), DebugNotEnough], None)) \<and>
         (snd (calculate_airflow curve_fit self) = None \<longrightarrow>
            (length (CO_history self) < 2 \<and>
               last (fst (calculate_airflow curve_fit self)) = DebugNotEnough)
          \<or> (2 \<le> length (CO_history self) \<and> snd (hd w) \<le> snd (last w) \<and>
               last (fst (calculate_airflow curve_fit self)) = DebugNotDecaying)
          \<or> (2 \<le> length (CO_history self) \<and> snd (last w) < snd (hd w) \<and>
               (\<exists>e. curve_fit (decay (map fst w)) (map fst w) (map snd w) (snd (hd w), 0.001)
                      = Inl e \<and>
                    last (butlast (fst (calculate_airflow curve_fit self))) = ErrorCurveFit e \<and>
                    last (fst (calculate_airflow curve_fit self)) = Traceback e)))"
proof (intro conjI impI)
  assume "length (CO_history self) < 2"
  then show "calculate_airflow curve_fit self =
      ([DebugHistory (length (CO_history self)), DebugNotEnough], None)"
    by (rule calculate_airflow_short)
next
  assume n: "snd (calculate_airflow curve_fit self) = None"
  have m: "2 \<le> length (CO_history self) \<Longrightarrow>
       hd (map snd w) = snd (hd w) \<and> last (map snd w) = snd (last w)"
    using assms window_nonempty [of "CO_history self"] by (simp add: hd_map last_map)
  from calculate_airflow_None [OF n assms] m
  show "(length (CO_history self) < 2 \<and>
               last (fst (calculate_airflow curve_fit self)) = DebugNotEnough)
          \<or> (2 \<le> length (CO_history self) \<and> snd (hd w) \<le> snd (last w) \<and>
               last (fst (calculate_airflow curve_fit self)) = DebugNotDecaying)
          \<or> (2 \<le> length (CO_history self) \<and> snd (last w) < snd (hd w) \<and>
               (\<exists>e. curve_fit (decay (map fst w)) (map fst w) (map snd w) (snd (hd w), 0.001)
                      = Inl e \<and>
                    last (butlast (fst (calculate_airflow curve_fit self))) = ErrorCurveFit e \<and>
                    last (fst (calculate_airflow curve_fit self)) = Traceback e))"
    by (elim disjE) auto
qed

theorem failure_is_bare_None_witness:
  "calculate_airflow failing_fit single_room = ([DebugHistory 1, DebugNotEnough], None) \<and>
   last (fst (calculate_airflow failing_fit flat_room)) = DebugNotDecaying \<and>
   last (fst (calculate_airflow failing_fit demo_room))
     = Traceback (Exception ''Optimal parameters not found'')"
proof -
  have a: "calculate_airflow failing_fit single_room = ([DebugHistory 1, DebugNotEnough], None)"
    using failure_is_bare_None [of "CO_history single_room" single_room failing_fit]
    by (simp add: example_histories last_n_def)
  have b: "last (fst (calculate_airflow failing_fit flat_room)) = DebugNotDecaying"
    using failure_is_bare_None [of "CO_history flat_room" flat_room failing_fit]
      calculate_airflow_flat [of flat_room "CO_history flat_room" failing_fit]
    by (simp add: example_histories last_n_def)
  have c: "last (fst (calculate_airflow failing_fit demo_room))
     = Traceback (Exception ''Optimal parameters not found'')"
    using failure_is_bare_None [of "CO_history demo_room" demo_room failing_fit]
      calculate_airflow_failed [of demo_room "CO_history demo_room" failing_fit
        "Exception ''Optimal parameters not found''"]
    by (simp add: demo_history last_n_def failing_fit_def canned_fit_def)
  show ?thesis using a b c by simp
qed

text \<open>
  Claim C2 as written fails: a log that is too short, a log that does not decay and a fit
  that raises all hand the caller the same value \<open>None\<close>, which carries no reason tag.
\<close>

theorem failures_indistinguishable:
  "snd (calculate_airflow failing_fit single_room) = None \<and>
   snd (calculate_airflow failing_fit flat_room) = None \<and>
   snd (calculate_airflow failing_fit demo_room) = None"
  by (simp add: calculate_airflow_def Let_def example_histories demo_history last_n_def
      failing_fit_def canned_fit_def)

text \<open>
  Claim C3, as the code has it. With at least two measurements in the log, a window whose
  first concentration is not above its last makes \<open>calculate_airflow\<close> print the
  not-decaying line and return the bare \<open>None\<close>, the same for every fitter: the fitter is
  never consulted. A fitter can make the call return a dictionary exactly when the first
  concentration is strictly above the last.
\<close>

theorem gate_on_first_and_last:
  assumes "2 \<le> length (CO_history self)"
    and "w = last_n 10 (CO_history self)"
  shows "(snd (hd w) \<le> snd (last w) \<longrightarrow>
            (\<forall>curve_fit. calculate_airflow curve_fit self =
               ([DebugHistory (length (CO_history self)), DebugUsingLast (length w),
                 DebugTimes (map fst w), DebugCOValues (map snd w), DebugNotDecaying], None))) \<and>
         ((\<exists>curve_fit. snd (calculate_airflow curve_fit self) \<noteq> None)
            \<longleftrightarrow> snd (last w) < snd (hd w))"
proof (intro conjI impI allI iffI)
  fix curve_fit
  assume "snd (hd w) \<le> snd (last w)"
  then show "calculate_airflow curve_fit self =
               ([DebugHistory (length (CO_history self)), DebugUsingLast (length w),
                 DebugTimes (map fst w), DebugCOValues (map snd w), DebugNotDecaying], None)"
    using assms window_ends [OF assms] by (intro calculate_airflow_flat) simp_all
next
  assume "\<exists>curve_fit. snd (calculate_airflow curve_fit self) \<noteq> None"
  then obtain curve_fit result where "snd (calculate_airflow curve_fit self) = Some result"
    by auto
  from calculate_airflow_Some [OF this assms(2)] window_ends [OF assms]
  show "snd (last w) < snd (hd w)" by simp
next
  assume "snd (last w) < snd (hd w)"
  then have "snd (calculate_airflow (canned_fit (Inr (0, 0))) self) \<noteq> None"
    using calculate_airflow_fitted [of self w "canned_fit (Inr (0, 0))" 0 0] assms
      window_ends [OF assms]
    by (simp add: canned_fit_def)
  then show "\<exists>curve_fit. snd (calculate_airflow curve_fit self) \<noteq> None" by blast
qed

theorem gate_on_first_and_last_witness:
  "calculate_airflow failing_fit flat_room =
     ([DebugHistory 2, DebugUsingLast 2, DebugTimes [0, 30], DebugCOValues [400, 400],
       DebugNotDecaying], None) \<and>
   (\<exists>curve_fit. snd (calculate_airflow curve_fit demo_room) \<noteq> None)"
  using gate_on_first_and_last [of flat_room "CO_history flat_room"]
    gate_on_first_and_last [of demo_room "CO_history demo_room"]
  by (simp add: example_histories demo_history last_n_def)

text \<open>
  Claim C3 as written fails: the value returned for a window that does not decay is the
  \<open>None\<close> returned for a log that is too short and for a fit that raises; it holds no
  reason.
\<close>

theorem not_decaying_return_has_no_reason:
  "snd (calculate_airflow failing_fit flat_room) = None \<and>
   snd (calculate_airflow failing_fit flat_room) = snd (calculate_airflow failing_fit single_room) \<and>
   snd (calculate_airflow failing_fit flat_room) = snd (calculate_airflow failing_fit demo_room)"
  by (simp add: calculate_airflow_def Let_def example_histories demo_history last_n_def
      failing_fit_def canned_fit_def)



text \<open>
  Claim C5. The window is the last \<open>min 10 (length log)\<close> entries of the log, in the
  order \<open>add_measurement\<close> appended them. The value returned is the one the window alone
  would give, and the fitter matters only through its answer on the times and concentrations
  of that window. Once the window has passed the gate, the value returned is what the code
  makes of the fitter's answer on exactly those times and concentrations: \<open>None\<close> when
  it raises, the dictionary of its \<open>lambda_per_sec\<close> otherwise.
\<close>

theorem window_is_latest_ten:
  assumes "w = last_n 10 (CO_history self)"
  shows "length w = min 10 (length (CO_history self)) \<and>
         (\<exists>older. CO_history self = older @ w) \<and>
         CO_history (foldl (\<lambda>s m. add_measurement s (fst m) (snd m)) (init v) ms) = ms \<and>
         snd (calculate_airflow curve_fit self)
           = snd (calculate_airflow curve_fit (self\<lparr>CO_history := w\<rparr>)) \<and>
         (\<forall>other.
            other (decay (map fst w)) (map fst w) (map snd w) (hd (map snd w), 0.001)
              = curve_fit (decay (map fst w)) (map fst w) (map snd w) (hd (map snd w), 0.001)
            \<longrightarrow> calculate_airflow other self = calculate_airflow curve_fit self) \<and>
         (2 \<le> length (CO_history self) \<and> snd (last w) < snd (hd w) \<longrightarrow>
            snd (calculate_airflow curve_fit self) =
              (case curve_fit (decay (map fst w)) (map fst w) (map snd w) (snd (hd w), 0.001) of
                 Inl e \<Rightarrow> None
               | Inr (C0_fit, lambda_per_sec) \<Rightarrow>
                   Some [''ACH'' \<mapsto> lambda_per_sec * 3600,
                         ''airflow_m3h'' \<mapsto> lambda_per_sec * 3600 * room_volume self,
                         ''airflow_CFM'' \<mapsto> lambda_per_sec * 3600 * room_volume self * 0.588,
                         ''confidence'' \<mapsto>
                            quant_confidence (if 5 \<le> length w then ''high'' else ''low'')
                              6 0.5 4]))"
proof (intro conjI allI impI)
  show "length w = min 10 (length (CO_history self))"
    using assms by (simp add: last_n_length)
  show "\<exists>older. CO_history self = older @ w"
    using assms last_n_suffix [of "CO_history self" 10] by metis
  show "CO_history (foldl (\<lambda>s m. add_measurement s (fst m) (snd m)) (init v) ms) = ms"
    by (simp add: add_measurements_history init_def)
  show "snd (calculate_airflow curve_fit self)
           = snd (calculate_airflow curve_fit (self\<lparr>CO_history := w\<rparr>))"
  proof (cases "length (CO_history self) < 2")
    case True
    then have "w = CO_history self" using assms by (simp add: last_n_short)
    then show ?thesis by simp
  next
    case False
    then have "2 \<le> length w" using assms by (simp add: last_n_length)
    then show ?thesis using False assms
      by (simp add: calculate_airflow_def Let_def last_n_idem split: sum.split prod.split)
  qed
next
  fix other :: curve_fit
  assume "other (decay (map fst w)) (map fst w) (map snd w) (hd (map snd w), 0.001)
              = curve_fit (decay (map fst w)) (map fst w) (map snd w) (hd (map snd w), 0.001)"
  then show "calculate_airflow other self = calculate_airflow curve_fit self"
    using assms by (simp add: calculate_airflow_def Let_def)
next
  assume "2 \<le> length (CO_history self) \<and> snd (last w) < snd (hd w)"
  then show "snd (calculate_airflow curve_fit self) =
              (case curve_fit (decay (map fst w)) (map fst w) (map snd w) (snd (hd w), 0.001) of
                 Inl e \<Rightarrow> None
               | Inr (C0_fit, lambda_per_sec) \<Rightarrow>
                   Some [''ACH'' \<mapsto> lambda_per_sec * 3600,
                         ''airflow_m3h'' \<mapsto> lambda_per_sec * 3600 * room_volume self,
                         ''airflow_CFM'' \<mapsto> lambda_per_sec * 3600 * room_volume self * 0.588,
                         ''confidence'' \<mapsto>
                            quant_confidence (if 5 \<le> length w then ''high'' else ''low'')
                              6 0.5 4])"
    using assms by (intro calculate_airflow_gated) simp_all
qed

theorem window_is_latest_ten_witness:
  "length (last_n 10 (CO_history twelve_room)) = 10 \<and>
   last_n 10 (CO_history twelve_room) =
     [(60, 460), (90, 440), (120, 420), (150, 400),
      (180, 380), (210, 362), (240, 345), (270, 328), (300, 313), (330, 300)] \<and>
   snd (calculate_airflow (canned_fit (Inr (460, 1 / 600))) twelve_room) =
   snd (calculate_airflow (canned_fit (Inr (460, 1 / 600)))
     (twelve_room\<lparr>CO_history := [(60, 460), (90, 440), (120, 420), (150, 400),
      (180, 380), (210, 362), (240, 345), (270, 328), (300, 313), (330, 300)]\<rparr>)) \<and>
   snd (calculate_airflow probe_fit twelve_room) \<noteq> None \<and>
   the (snd (calculate_airflow probe_fit twelve_room)) ''ACH'' = Some (3748 * 3600) \<and>
   snd (calculate_airflow probe_fit demo_room) \<noteq> None \<and>
   the (snd (calculate_airflow probe_fit demo_room)) ''ACH'' = Some (2128 * 3600)"
proof -
  note t = window_is_latest_ten [OF refl, of twelve_room 48 "[]"
      "canned_fit (Inr (460, 1 / 600))"]
  have a: "length (last_n 10 (CO_history twelve_room)) = min 10 (length (CO_history twelve_room))"
    using t by (rule conjunct1)
  have b: "snd (calculate_airflow (canned_fit (Inr (460, 1 / 600))) twelve_room) =
     snd (calculate_airflow (canned_fit (Inr (460, 1 / 600)))
        (twelve_room\<lparr>CO_history := last_n 10 (CO_history twelve_room)\<rparr>))"
    using t [THEN conjunct2, THEN conjunct2, THEN conjunct2] by (rule conjunct1)
  have c: "length (last_n 10 (CO_history twelve_room)) = 10"
    using a by (simp add: twelve_history)
  note p12 = window_is_latest_ten [OF refl, of twelve_room 48 "[]" probe_fit,
      THEN conjunct2, THEN conjunct2, THEN conjunct2, THEN conjunct2, THEN conjunct2]
  have d: "snd (calculate_airflow probe_fit twelve_room) \<noteq> None \<and>
     the (snd (calculate_airflow probe_fit twelve_room)) ''ACH'' = Some (3748 * 3600)"
    using p12 unfolding twelve_window by (simp add: twelve_history probe_fit_def)
  note p6 = window_is_latest_ten [OF refl, of demo_room 48 "[]" probe_fit,
      THEN conjunct2, THEN conjunct2, THEN conjunct2, THEN conjunct2, THEN conjunct2]
  have e: "snd (calculate_airflow probe_fit demo_room) \<noteq> None \<and>
     the (snd (calculate_airflow probe_fit demo_room)) ''ACH'' = Some (2128 * 3600)"
    using p6 unfolding demo_window by (simp add: demo_history probe_fit_def)
  show ?thesis using b c d e unfolding twelve_window by (intro conjI) simp_all
qed

text \<open>
  Claim C6. Every dictionary returned holds \<open>ACH = lambda_per_sec * 3600\<close>,
  \<open>airflow_m3h = ACH * room_volume\<close> and \<open>airflow_CFM = airflow_m3h * 0.588\<close>, where
  \<open>lambda_per_sec\<close> is the second parameter the fitter answered for the window.
\<close>

theorem airflow_derivation:
  assumes "snd (calculate_airflow curve_fit self) = Some result"
    and "w = last_n 10 (CO_history self)"
  shows "\<exists>C0_fit lambda_per_sec.
           curve_fit (decay (map fst w)) (map fst w) (map snd w) (snd (hd w), 0.001)
             = Inr (C0_fit, lambda_per_sec) \<and>
           result ''ACH'' = Some (lambda_per_sec * 3600) \<and>
           result ''airflow_m3h'' = Some (lambda_per_sec * 3600 * room_volume self) \<and>
           result ''airflow_CFM'' = Some (lambda_per_sec * 3600 * room_volume self * 0.588)"
proof -
  from calculate_airflow_Some [OF assms]
  obtain C0_fit lambda_per_sec where
    len: "2 \<le> length (CO_history self)" and
    fit: "curve_fit (decay (map fst w)) (map fst w) (map snd w) (hd (map snd w), 0.001)
         = Inr (C0_fit, lambda_per_sec)" and
    res: "result = [''ACH'' \<mapsto> lambda_per_sec * 3600,
           ''airflow_m3h'' \<mapsto> lambda_per_sec * 3600 * room_volume self,
           ''airflow_CFM'' \<mapsto> lambda_per_sec * 3600 * room_volume self * 0.588,
           ''confidence'' \<mapsto>
              quant_confidence (if 5 \<le> length w then ''high'' else ''low'') 6 0.5 4]"
    by blast
  have "hd (map snd w) = snd (hd w)" using window_ends [OF len assms(2)] by simp
  with fit have "curve_fit (decay (map fst w)) (map fst w) (map snd w) (snd (hd w), 0.001)
         = Inr (C0_fit, lambda_per_sec)" by simp
  moreover have "result ''ACH'' = Some (lambda_per_sec * 3600)" by (simp add: res)
  moreover have "result ''airflow_m3h'' = Some (lambda_per_sec * 3600 * room_volume self)"
    by (simp add: res)
  moreover have "result ''airflow_CFM'' = Some (lambda_per_sec * 3600 * room_volume self * 0.588)"
    by (simp add: res)
  ultimately show ?thesis by blast
qed

theorem airflow_derivation_witness:
  "snd (calculate_airflow (canned_fit (Inr (400, 1 / 600))) demo_room) \<noteq> None \<and>
   the (snd (calculate_airflow (canned_fit (Inr (400, 1 / 600))) demo_room)) ''airflow_m3h''
     = Some 288 \<and>
   the (snd (calculate_airflow (canned_fit (Inr (400, 1 / 600))) demo_room)) ''airflow_CFM''
     = Some 169.344"
proof -
  let ?r = "the (snd (calculate_airflow (canned_fit (Inr (400, 1 / 600))) demo_room))"
  have s: "snd (calculate_airflow (canned_fit (Inr (400, 1 / 600))) demo_room) = Some ?r"
    by (simp add: demo_calc)
  from airflow_derivation [OF s refl]
  have "?r ''airflow_m3h'' = Some (1 / 600 * 3600 * room_volume demo_room) \<and>
        ?r ''airflow_CFM'' = Some (1 / 600 * 3600 * room_volume demo_room * 0.588)"
    by (auto simp add: canned_fit_def)
  then show ?thesis by (simp add: demo_history demo_calc)
qed

text \<open>
  Claim C7. The confidence of every dictionary returned is the value of the specification's
  algorithm at the bucket of the window length and the inputs 6, 0.5 and 4; on the two
  buckets \<open>quant_confidence\<close> and the specification's algorithm agree for all inputs.
\<close>

theorem confidence_follows_the_algorithm:
  assumes "w = last_n 10 (CO_history self)"
  shows "(snd (calculate_airflow curve_fit self) = Some result \<longrightarrow>
           result ''confidence'' = Some (spec_confidence (spec_bucket (length w)) 6 0.5 4)) \<and>
         quant_confidence (spec_bucket n) furniture_count vent_speed occupant_count
           = spec_confidence (spec_bucket n) furniture_count vent_speed occupant_count"
proof (intro conjI impI)
  show g: "quant_confidence (spec_bucket n) furniture_count vent_speed occupant_count
           = spec_confidence (spec_bucket n) furniture_count vent_speed occupant_count" for n furniture_count vent_speed occupant_count
    by (rule quant_confidence_spec) (simp add: spec_bucket_def)
  assume "snd (calculate_airflow curve_fit self) = Some result"
  from calculate_airflow_Some [OF this assms]
  have "result ''confidence'' =
      Some (quant_confidence (if 5 \<le> length w then ''high'' else ''low'') 6 0.5 4)"
    by auto
  also have "(if 5 \<le> length w then ''high'' else ''low'') = spec_bucket (length w)"
    by (simp add: spec_bucket_def)
  finally show "result ''confidence'' = Some (spec_confidence (spec_bucket (length w)) 6 0.5 4)"
    by (simp only: g)
qed

theorem confidence_follows_the_algorithm_witness:
  "snd (calculate_airflow (canned_fit (Inr (400, 1 / 600))) demo_room) \<noteq> None \<and>
   the (snd (calculate_airflow (canned_fit (Inr (400, 1 / 600))) demo_room)) ''confidence''
     = Some (spec_confidence ''high'' 6 0.5 4)"
  using confidence_follows_the_algorithm [of "last_n 10 (CO_history demo_room)" demo_room
      "canned_fit (Inr (400, 1 / 600))"
      "the (snd (calculate_airflow (canned_fit (Inr (400, 1 / 600))) demo_room))"]
  by (simp add: demo_calc demo_history last_n_def spec_bucket_def)

text \<open>
  Claim C8. The sigmoid followed by rounding to two decimals lies in the closed interval
  from 0 to 1 for every real argument, so \<open>quant_confidence\<close> does for all its inputs, and
  so does the confidence of every dictionary returned.
\<close>

theorem confidence_in_unit_interval:
  "(0 \<le> py_round (sigmoid x) 2 \<and> py_round (sigmoid x) 2 \<le> 1) \<and>
   (0 \<le> quant_confidence confidence num_furniture indoor_vent_speed current_capacity \<and>
    quant_confidence confidence num_furniture indoor_vent_speed current_capacity \<le> 1) \<and>
   (snd (calculate_airflow curve_fit self) = Some result \<longrightarrow>
      (\<exists>c. result ''confidence'' = Some c \<and> 0 \<le> c \<and> c \<le> 1))"
proof (intro conjI impI)
  show "0 \<le> py_round (sigmoid x) 2" and "py_round (sigmoid x) 2 \<le> 1"
    using py_round_sigmoid_unit [of x] by simp_all
  show q0: "0 \<le> quant_confidence b f v p" for b f v p
    using py_round_sigmoid_unit by (simp add: quant_confidence_def)
  show q1: "quant_confidence b f v p \<le> 1" for b f v p
    using py_round_sigmoid_unit by (simp add: quant_confidence_def)
  assume "snd (calculate_airflow curve_fit self) = Some result"
  from calculate_airflow_Some [OF this refl]
  obtain b where "result ''confidence'' = Some (quant_confidence b 6 0.5 4)" by auto
  then show "\<exists>c. result ''confidence'' = Some c \<and> 0 \<le> c \<and> c \<le> 1"
    using q0 q1 by blast
qed

theorem confidence_in_unit_interval_witness:
  "snd (calculate_airflow (canned_fit (Inr (400, 1 / 600))) demo_room) \<noteq> None \<and>
   (\<exists>c. the (snd (calculate_airflow (canned_fit (Inr (400, 1 / 600))) demo_room)) ''confidence''
      = Some c \<and> 0 \<le> c \<and> c \<le> 1)"
  using confidence_in_unit_interval [of 0 "''high''" 6 "0.5" 4 "canned_fit (Inr (400, 1 / 600))" demo_room
      "the (snd (calculate_airflow (canned_fit (Inr (400, 1 / 600))) demo_room))"]
  by (simp add: demo_calc)

text \<open>
  Claim C9, as the code has it. When the fitter raises on the window,
  \<open>calculate_airflow\<close> returns the bare \<open>None\<close>, never a dictionary; when the call
  reaches the fitter, the exception is printed with its traceback and goes no further.
\<close>

theorem fit_exception_becomes_None:
  assumes "w = last_n 10 (CO_history self)"
    and "curve_fit (decay (map fst w)) (map fst w) (map snd w) (snd (hd w), 0.001) = Inl e"
  shows "snd (calculate_airflow curve_fit self) = None \<and>
         (2 \<le> length (CO_history self) \<and> snd (last w) < snd (hd w) \<longrightarrow>
            calculate_airflow curve_fit self =
              ([DebugHistory (length (CO_history self)), DebugUsingLast (length w),
                DebugTimes (map fst w), DebugCOValues (map snd w),
                ErrorCurveFit e, Traceback e], None))"
proof (intro conjI impI)
  show "snd (calculate_airflow curve_fit self) = None"
  proof (cases "snd (calculate_airflow curve_fit self)")
    case None
    then show ?thesis .
  next
    case (Some result)
    from calculate_airflow_Some [OF Some assms(1)]
    obtain C0_fit lambda_per_sec where
      len: "2 \<le> length (CO_history self)" and
      "curve_fit (decay (map fst w)) (map fst w) (map snd w) (hd (map snd w), 0.001)
         = Inr (C0_fit, lambda_per_sec)"
      by blast
    then show ?thesis using assms(2) window_ends [OF len assms(1)] by simp
  qed
next
  assume g: "2 \<le> length (CO_history self) \<and> snd (last w) < snd (hd w)"
  then show "calculate_airflow curve_fit self =
              ([DebugHistory (length (CO_history self)), DebugUsingLast (length w),
                DebugTimes (map fst w), DebugCOValues (map snd w),
                ErrorCurveFit e, Traceback e], None)"
    using assms window_ends [of "CO_history self" w]
    by (intro calculate_airflow_failed) simp_all
qed

theorem fit_exception_becomes_None_witness:
  "calculate_airflow failing_fit demo_room =
     ([DebugHistory 6, DebugUsingLast 6, DebugTimes [0, 30, 60, 90, 120, 150],
       DebugCOValues [400, 380, 362, 345, 328, 313],
       ErrorCurveFit (Exception ''Optimal parameters not found''),
       Traceback (Exception ''Optimal parameters not found'')], None)"
  using fit_exception_becomes_None [of "CO_history demo_room" demo_room failing_fit
      "Exception ''Optimal parameters not found''"]
  by (simp add: demo_history last_n_def failing_fit_def canned_fit_def)

text \<open>
  Claim C9 as written fails: the value returned after the fitter raised is the same
  \<open>None\<close> whatever the exception was, and the same as for a log that is too short; it is
  no outcome tagged \<open>FitFailed\<close>.
\<close>

theorem fit_failure_return_has_no_reason:
  "snd (calculate_airflow (canned_fit (Inl (Exception ''Optimal parameters not found''))) demo_room)
     = None \<and>
   snd (calculate_airflow (canned_fit (Inl (Exception ''Optimal parameters not found''))) demo_room)
     = snd (calculate_airflow (canned_fit (Inl (Exception ''array must not contain infs or NaNs'')))
             demo_room) \<and>
   snd (calculate_airflow (canned_fit (Inl (Exception ''Optimal parameters not found''))) demo_room)
     = snd (calculate_airflow (canned_fit (Inl (Exception ''Optimal parameters not found'')))
             (init 48))"
  by (simp add: calculate_airflow_def Let_def demo_history last_n_def canned_fit_def init_def)

text \<open>
  Claim C10. Every dictionary that \<open>calculate_airflow\<close> returns has confidence exactly 1,
  whatever the room volume, the log and the fitter: the three inhibitor inputs are the
  constants 6, 0.5 and 4, the raw score is 104 in the "low" bucket and 154 in the "high"
  one, and the sigmoid of either rounds to 1.
\<close>

theorem confidence_is_one:
  assumes "snd (calculate_airflow curve_fit self) = Some result"
  shows "result ''confidence'' = Some 1 \<and>
         cp_value_raw ''low'' (constant_value NUM_FURNITURE)
           (constant_value INDOOR_VENT_SPEED) (constant_value PEOPLE) = 104 \<and>
         cp_value_raw ''high'' (constant_value NUM_FURNITURE)
           (constant_value INDOOR_VENT_SPEED) (constant_value PEOPLE) = 154"
proof -
  obtain b where
    "result ''confidence'' = Some (quant_confidence (if b then ''high'' else ''low'') 6 0.5 4)"
    using calculate_airflow_Some [OF assms refl] by auto
  then have "result ''confidence'' = Some 1" by (simp only: quant_confidence_constants)
  then show ?thesis by (simp add: cp_value_raw_def)
qed

theorem confidence_is_one_witness:
  "snd (calculate_airflow (canned_fit (Inr (400, 1 / 600))) demo_room) \<noteq> None \<and>
   the (snd (calculate_airflow (canned_fit (Inr (400, 1 / 600))) demo_room)) ''confidence''
     = Some 1"
  using confidence_is_one [of "canned_fit (Inr (400, 1 / 600))" demo_room
      "the (snd (calculate_airflow (canned_fit (Inr (400, 1 / 600))) demo_room))"]
  by (simp add: demo_calc)

end
